theory Spec2Isabelle
  imports Main
begin

section \<open>Python values\<close>

text \<open>
  An optional string argument (\<open>str = None\<close>) is a \<open>string option\<close>; \<open>None\<close> is
  Python's \<open>None\<close>. A value is falsy when it is \<open>None\<close> or the empty string.
\<close>

definition truthy :: "string option \<Rightarrow> bool" where
  "truthy v = (case v of None \<Rightarrow> False | Some s \<Rightarrow> s \<noteq> [])"

text \<open>\<open>a or b\<close> where \<open>b\<close> may itself be \<open>None\<close>.\<close>

definition py_or :: "string option \<Rightarrow> string option \<Rightarrow> string option" where
  "py_or a b = (if truthy a then a else b)"

text \<open>\<open>a or d\<close> where \<open>d\<close> is a string.\<close>

definition or_default :: "string option \<Rightarrow> string \<Rightarrow> string" where
  "or_default a d = (case a of None \<Rightarrow> d | Some s \<Rightarrow> if s = [] then d else s)"

text \<open>
  Exceptions. \<open>OpenAIError\<close> is the provider library's error class; \<open>ValueError\<close> and
  \<open>IndexError\<close> are Python's own; \<open>OtherException\<close> stands for every other subclass of
  \<open>Exception\<close>. The string is \<open>str(e)\<close>.
\<close>

datatype error =
    ValueError string
  | OpenAIError string
  | IndexError string
  | OtherException string

fun error_str :: "error \<Rightarrow> string" where
  "error_str (ValueError s) = s"
| "error_str (OpenAIError s) = s"
| "error_str (IndexError s) = s"
| "error_str (OtherException s) = s"

fun is_OpenAIError :: "error \<Rightarrow> bool" where
  "is_OpenAIError (OpenAIError s) = True"
| "is_OpenAIError e = False"

text \<open>An attribute that an object may lack (\<open>hasattr\<close>, \<open>getattr\<close> with a default).\<close>

datatype 'a attr = Missing | Attr 'a

section \<open>Messages, requests and provider responses\<close>

text \<open>
  A message is a dict with the keys \<open>role\<close> and \<open>content\<close>. The content is optional
  because \<open>chat\<close> is also called with \<open>message=None\<close>.
\<close>

record message =
  role :: string
  content :: "string option"

text \<open>The keyword arguments of \<open>chat.completions.create\<close>; an omitted \<open>stream\<close> is \<open>False\<close>.\<close>

record request =
  req_model :: string
  req_messages :: "message list"
  req_stream :: bool

text \<open>\<open>response.choices[0].message.content\<close> of a completion.\<close>

record choice =
  message_content :: "string option"

record completion =
  choices :: "choice list"

text \<open>\<open>chunk.choices[0].delta.content\<close> of a streamed chunk.\<close>

record chunk_delta =
  delta_content :: "string option attr"

record chunk_choice =
  delta :: "chunk_delta attr"

record chunk =
  chunk_choices :: "chunk_choice list option attr"

text \<open>
  A streaming response is iterated once: it produces its chunks in order and then either
  ends (\<open>None\<close>) or raises (\<open>Some e\<close>).
\<close>

type_synonym chunk_stream = "chunk list \<times> error option"

text \<open>
  The provider library is not part of the repository. It is a parameter: what
  \<open>create\<close> answers without \<open>stream\<close>, and what it answers with \<open>stream=True\<close>;
  either call may raise.
\<close>

record provider =
  create :: "request \<Rightarrow> error + completion"
  create_stream :: "request \<Rightarrow> error + chunk_stream"

text \<open>
  What the program does to its surroundings: the requests sent to the provider, the
  lines printed, and the texts written to the page's response placeholder.
\<close>

datatype printed = PrintText string | PrintResponse completion

record world =
  requests :: "request list"
  stdout :: "printed list"
  markdown :: "string list"

definition send :: "request \<Rightarrow> world \<Rightarrow> world" where
  "send r w = w\<lparr>requests := requests w @ [r]\<rparr>"

definition py_print :: "printed \<Rightarrow> world \<Rightarrow> world" where
  "py_print x w = w\<lparr>stdout := stdout w @ [x]\<rparr>"

section \<open>PerplexityClient\<close>

definition DEFAULT_BASE_URL :: string where
  "DEFAULT_BASE_URL = ''https://api.perplexity.ai''"

definition DEFAULT_MODEL :: string where
  "DEFAULT_MODEL = ''sonar''"

definition DEFAULT_SYSTEM_PROMPT :: string where
  "DEFAULT_SYSTEM_PROMPT = ''Be precise and concise.''"

definition missing_key_message :: string where
  "missing_key_message =
     ''Perplexity API key not provided or found in environment variables (PERPLEXITY_API_KEY).''"

record perplexity_client =
  api_key :: string
  base_url :: string
  default_model :: string
  client :: provider

text \<open>
  \<open>__init__\<close>. \<open>OpenAI\<close> is the provider library's constructor (it may raise) and
  \<open>environ\<close> is \<open>os.environ\<close>. The result is the exception raised or the client built.
\<close>

definition init ::
  "(string \<Rightarrow> string \<Rightarrow> error + provider) \<Rightarrow> (string \<rightharpoonup> string) \<Rightarrow>
   string option \<Rightarrow> string option \<Rightarrow> string option \<Rightarrow> world \<Rightarrow>
   (error + perplexity_client) \<times> world" where
  "init OpenAI environ api_key_arg base_url_arg default_model_arg w =
     (case py_or api_key_arg (environ ''PERPLEXITY_API_KEY'') of
        None \<Rightarrow> (Inl (ValueError missing_key_message), w)
      | Some k \<Rightarrow>
          if k = [] then (Inl (ValueError missing_key_message), w)
          else
            (let b = or_default base_url_arg DEFAULT_BASE_URL;
                 m = or_default default_model_arg DEFAULT_MODEL
             in case OpenAI k b of
                  Inl e \<Rightarrow>
                    (Inl e,
                     py_print (PrintText
                       (''Error initializing OpenAI client for Perplexity: '' @ error_str e)) w)
                | Inr p \<Rightarrow>
                    (Inr \<lparr>api_key = k, base_url = b, default_model = m, client = p\<rparr>, w)))"

subsection \<open>chat, a generator function\<close>

text \<open>
  The body of \<open>chat\<close> contains \<open>yield\<close>, so calling it runs none of the body and
  returns a generator object holding the arguments. Each \<open>next\<close> on the generator runs
  the body up to the next \<open>yield\<close>, to its \<open>return\<close> (\<open>StopIteration\<close> carrying the
  returned value), or to an exception.
\<close>

datatype 'r step = Yielded string | StopIteration 'r | Raised error

datatype chat_gen =
    Created perplexity_client "string option" "string option" "string option"
      "message list option" bool
  | AtYield "chunk list" "error option"
  | Finished

definition chat ::
  "perplexity_client \<Rightarrow> string option \<Rightarrow> string option \<Rightarrow> string option \<Rightarrow>
   message list option \<Rightarrow> bool \<Rightarrow> chat_gen" where
  "chat self message model system_prompt messages stream =
     Created self message model system_prompt messages stream"

text \<open>The two \<open>except\<close> clauses: print, then re-raise.\<close>

definition chat_except :: "error \<Rightarrow> world \<Rightarrow> string option step \<times> chat_gen \<times> world" where
  "chat_except e w =
     (Raised e, Finished,
      py_print (PrintText
        ((if is_OpenAIError e then ''Perplexity API Error: ''
          else ''An unexpected error occurred: '') @ error_str e)) w)"

text \<open>The test and the \<open>getattr\<close> inside the streaming loop: what a chunk makes the loop yield.\<close>

definition chunk_fragment :: "chunk \<Rightarrow> string option" where
  "chunk_fragment c =
     (case chunk_choices c of
        Missing \<Rightarrow> None
      | Attr None \<Rightarrow> None
      | Attr (Some []) \<Rightarrow> None
      | Attr (Some (ch # rest)) \<Rightarrow>
          (case delta ch of
             Missing \<Rightarrow> None
           | Attr d \<Rightarrow>
               (let content = (case delta_content d of Missing \<Rightarrow> None | Attr v \<Rightarrow> v)
                in if truthy content then content else None)))"

text \<open>
  \<open>for chunk in response\<close>, from the chunk the response is at, up to the next \<open>yield\<close>.
  The generator is then suspended inside the loop (\<open>AtYield\<close>) with the rest of the
  response.
\<close>

fun stream_loop ::
  "chunk list \<Rightarrow> error option \<Rightarrow> world \<Rightarrow> string option step \<times> chat_gen \<times> world" where
  "stream_loop [] None w = (StopIteration None, Finished, w)"
| "stream_loop [] (Some e) w = chat_except e w"
| "stream_loop (c # cs) err w =
     (case chunk_fragment c of
        Some s \<Rightarrow> (Yielded s, AtYield cs err, w)
      | None \<Rightarrow> stream_loop cs err w)"

definition chat_messages ::
  "string option \<Rightarrow> string option \<Rightarrow> message list option \<Rightarrow> message list" where
  "chat_messages message system_prompt messages =
     (let current_system_prompt = or_default system_prompt DEFAULT_SYSTEM_PROMPT
      in case messages of
           Some ms \<Rightarrow> ms
         | None \<Rightarrow>
             [\<lparr>role = ''system'', content = Some current_system_prompt\<rparr>,
              \<lparr>role = ''user'', content = message\<rparr>])"

definition chat_body ::
  "perplexity_client \<Rightarrow> string option \<Rightarrow> string option \<Rightarrow> string option \<Rightarrow>
   message list option \<Rightarrow> bool \<Rightarrow> world \<Rightarrow> string option step \<times> chat_gen \<times> world" where
  "chat_body self message model system_prompt messages stream w =
     (let selected_model = or_default model (default_model self);
          msgs = chat_messages message system_prompt messages
      in if stream then
           (let req = \<lparr>req_model = selected_model, req_messages = msgs, req_stream = True\<rparr>;
                w1 = send req w
            in case create_stream (client self) req of
                 Inl e \<Rightarrow> chat_except e w1
               | Inr (cs, err) \<Rightarrow> stream_loop cs err w1)
         else
           (let req = \<lparr>req_model = selected_model, req_messages = msgs, req_stream = False\<rparr>;
                w1 = send req w
            in case create (client self) req of
                 Inl e \<Rightarrow> chat_except e w1
               | Inr response \<Rightarrow>
                   (let w2 = py_print (PrintResponse response) w1
                    in case choices response of
                         [] \<Rightarrow> chat_except (IndexError ''list index out of range'') w2
                       | ch # rest \<Rightarrow> (StopIteration (message_content ch), Finished, w2))))"

text \<open>\<open>next(g)\<close>: the outcome, the generator afterwards, the world afterwards.\<close>

fun chat_next :: "chat_gen \<Rightarrow> world \<Rightarrow> string option step \<times> chat_gen \<times> world" where
  "chat_next (Created self message model system_prompt messages stream) w =
     chat_body self message model system_prompt messages stream w"
| "chat_next (AtYield cs err) w = stream_loop cs err w"
| "chat_next Finished w = (StopIteration None, Finished, w)"

text \<open>
  Exhausting a generator (\<open>for x in g\<close>, \<open>list(g)\<close>): the fragments it yields, in
  order, and how it ends.
\<close>

datatype 'r ending = Returned 'r | Failed error

lemma stream_loop_Yielded:
  "stream_loop cs err w = (Yielded s, g', w') \<Longrightarrow>
     \<exists>cs'. g' = AtYield cs' err \<and> length cs' < length cs \<and> w' = w"
proof (induction cs)
  case Nil
  then show ?case by (cases err) (simp_all add: chat_except_def)
next
  case (Cons c cs)
  then show ?case by (cases "chunk_fragment c") auto
qed

lemma chat_body_Yielded:
  "chat_body self message model system_prompt messages stream w = (Yielded s, g', w') \<Longrightarrow>
     \<exists>cs' err. g' = AtYield cs' err"
  by (auto simp: chat_body_def Let_def chat_except_def
      split: if_splits sum.splits prod.splits list.splits dest: stream_loop_Yielded)

fun chat_gen_rank :: "chat_gen \<Rightarrow> nat" where
  "chat_gen_rank (Created self message model system_prompt messages stream) = 2"
| "chat_gen_rank (AtYield cs err) = 1"
| "chat_gen_rank Finished = 0"

fun chat_gen_left :: "chat_gen \<Rightarrow> nat" where
  "chat_gen_left (AtYield cs err) = length cs"
| "chat_gen_left g = 0"

lemma chat_next_Yielded:
  "chat_next g w = (Yielded s, g', w') \<Longrightarrow>
     chat_gen_rank g' < chat_gen_rank g \<or>
     chat_gen_rank g' = chat_gen_rank g \<and> chat_gen_left g' < chat_gen_left g"
proof (cases g)
  case (Created self message model system_prompt messages stream)
  assume "chat_next g w = (Yielded s, g', w')"
  with Created show ?thesis by (auto dest: chat_body_Yielded)
next
  case (AtYield cs err)
  assume "chat_next g w = (Yielded s, g', w')"
  with AtYield show ?thesis by (auto dest: stream_loop_Yielded)
next
  case Finished
  assume "chat_next g w = (Yielded s, g', w')"
  with Finished show ?thesis by simp
qed

function iterate :: "chat_gen \<Rightarrow> world \<Rightarrow> string list \<times> string option ending \<times> world" where
  "iterate g w =
     (case chat_next g w of
        (Yielded s, g', w') \<Rightarrow> (case iterate g' w' of (xs, r, w'') \<Rightarrow> (s # xs, r, w''))
      | (StopIteration v, g', w') \<Rightarrow> ([], Returned v, w')
      | (Raised e, g', w') \<Rightarrow> ([], Failed e, w'))"
  by pat_completeness auto
termination
proof (relation "measures [\<lambda>(g, w). chat_gen_rank g, \<lambda>(g, w). chat_gen_left g]")
  show "wf (measures [\<lambda>(g, w). chat_gen_rank g, \<lambda>(g, w). chat_gen_left g])"
    by simp
next
  fix g w x1 x2 s g' w'
  assume "(x1, x2) = chat_next g w" "x1 = Yielded s" "(g', w') = x2"
  then have "chat_next g w = (Yielded s, g', w')" by simp
  from chat_next_Yielded [OF this]
  show "((g', w'), (g, w)) \<in> measures [\<lambda>(g, w). chat_gen_rank g, \<lambda>(g, w). chat_gen_left g]"
    by auto
qed

section \<open>The page (app.py)\<close>

subsection \<open>stream_perplexity_response, a generator function\<close>

text \<open>
  The generator is created with its arguments, is suspended at \<open>yield chunk\<close> while it
  forwards the fragments of \<open>client.chat\<close>, or at the \<open>yield\<close> of the \<open>except\<close>
  clause after an exception.
\<close>

datatype response_gen =
    RCreated perplexity_client "message list" string bool
  | RForwarding chat_gen
  | RAtError
  | RFinished

definition stream_perplexity_response ::
  "perplexity_client \<Rightarrow> message list \<Rightarrow> string \<Rightarrow> bool \<Rightarrow> response_gen" where
  "stream_perplexity_response cl messages model stream = RCreated cl messages model stream"

text \<open>One round of \<open>for chunk in client.chat(...)\<close> inside the \<open>try\<close>.\<close>

definition forward :: "chat_gen \<Rightarrow> world \<Rightarrow> unit step \<times> response_gen \<times> world" where
  "forward g w =
     (case chat_next g w of
        (Yielded chunk, g', w') \<Rightarrow> (Yielded chunk, RForwarding g', w')
      | (StopIteration v, g', w') \<Rightarrow> (StopIteration (), RFinished, w')
      | (Raised e, g', w') \<Rightarrow> (Yielded (''[Error: '' @ error_str e @ '']''), RAtError, w'))"

fun response_next :: "response_gen \<Rightarrow> world \<Rightarrow> unit step \<times> response_gen \<times> world" where
  "response_next (RCreated cl messages model stream) w =
     forward (chat cl None (Some model) None (Some messages) stream) w"
| "response_next (RForwarding g) w = forward g w"
| "response_next RAtError w = (StopIteration (), RFinished, w)"
| "response_next RFinished w = (StopIteration (), RFinished, w)"

subsection \<open>The session and one chat turn\<close>

text \<open>
  The messages of the session are dict objects that the stored list and its copy share,
  so the dicts live in a store, addressed by their position, and a list of messages is
  a list of addresses. Creating a dict appends it to the store.
\<close>

type_synonym ref = nat

record session =
  objects :: "message list"
  st_messages :: "ref list"
  st_pdf_content :: string
  st_system_prompt :: string
  st_model :: string

definition new_dict :: "message \<Rightarrow> message list \<Rightarrow> ref \<times> message list" where
  "new_dict m h = (length h, h @ [m])"

text \<open>What an f-string prints for a value.\<close>

definition py_format :: "string option \<Rightarrow> string" where
  "py_format v = (case v of None \<Rightarrow> ''None'' | Some s \<Rightarrow> s)"

definition context_message :: "string \<Rightarrow> message \<Rightarrow> message" where
  "context_message pdf m =
     \<lparr>role = ''user'',
      content = Some (''Context from PDF:\<newline>'' @ pdf @ ''\<newline>\<newline>'' @ py_format (content m))\<rparr>"

text \<open>
  The loop over \<open>enumerate(chat_history)\<close>: at the first message whose role is
  \<open>user\<close>, a new dict takes its place in the list and the loop ends.
\<close>

fun prepend_context :: "string \<Rightarrow> message list \<Rightarrow> ref list \<Rightarrow> ref list \<times> message list" where
  "prepend_context pdf h [] = ([], h)"
| "prepend_context pdf h (a # rest) =
     (if role (h ! a) = ''user''
      then (case new_dict (context_message pdf (h ! a)) h of (b, h') \<Rightarrow> (b # rest, h'))
      else (case prepend_context pdf h rest of (rest', h') \<Rightarrow> (a # rest', h')))"

text \<open>\<open>st.session_state["messages"].append(...)\<close>: the stored list itself grows.\<close>

definition append_message :: "message \<Rightarrow> session \<Rightarrow> session" where
  "append_message m st =
     (case new_dict m (objects st) of
        (a, h) \<Rightarrow> st\<lparr>objects := h, st_messages := st_messages st @ [a]\<rparr>)"

text \<open>
  Composing the outgoing list: the system message, then a copy of the stored list with
  the document text put before the first user message. The result is the outgoing list
  and the store.
\<close>

definition compose_messages :: "session \<Rightarrow> ref list \<times> message list" where
  "compose_messages st =
     (case new_dict \<lparr>role = ''system'', content = Some (st_system_prompt st)\<rparr> (objects st) of
        (a_sys, h1) \<Rightarrow>
          (let messages = [a_sys];
               chat_history = st_messages st
           in case (if st_pdf_content st \<noteq> [] \<and> chat_history \<noteq> []
                    then prepend_context (st_pdf_content st) h1 chat_history
                    else (chat_history, h1)) of
                (chat_history', h2) \<Rightarrow> (messages @ chat_history', h2)))"

text \<open>
  The loop of the page over the fragments: each one is added to \<open>response_text\<close>, which
  is then written to the placeholder.
\<close>

fun response_gen_rank :: "response_gen \<Rightarrow> nat" where
  "response_gen_rank (RCreated cl messages model stream) = 3"
| "response_gen_rank (RForwarding g) = 2"
| "response_gen_rank RAtError = 1"
| "response_gen_rank RFinished = 0"

fun response_gen_inner :: "response_gen \<Rightarrow> chat_gen" where
  "response_gen_inner (RForwarding g) = g"
| "response_gen_inner r = Finished"

lemma forward_Yielded:
  "forward g w = (Yielded s, r', w') \<Longrightarrow>
     r' = RAtError \<or>
     (\<exists>g'. r' = RForwarding g' \<and>
       (chat_gen_rank g' < chat_gen_rank g \<or>
        chat_gen_rank g' = chat_gen_rank g \<and> chat_gen_left g' < chat_gen_left g))"
  by (auto simp: forward_def split: prod.splits step.splits dest: chat_next_Yielded)

lemma response_next_Yielded:
  "response_next r w = (Yielded s, r', w') \<Longrightarrow>
     (r', r) \<in> measures [response_gen_rank, \<lambda>r. chat_gen_rank (response_gen_inner r),
                        \<lambda>r. chat_gen_left (response_gen_inner r)]"
  by (cases r) (auto dest!: forward_Yielded)

function consume :: "response_gen \<Rightarrow> string \<Rightarrow> world \<Rightarrow> error option \<times> string \<times> world" where
  "consume r response_text w =
     (case response_next r w of
        (Yielded chunk, r', w') \<Rightarrow>
          (let t = response_text @ chunk
           in consume r' t (w'\<lparr>markdown := markdown w' @ [t]\<rparr>))
      | (StopIteration u, r', w') \<Rightarrow> (None, response_text, w')
      | (Raised e, r', w') \<Rightarrow> (Some e, response_text, w'))"
  by pat_completeness auto
termination
proof (relation "inv_image (measures [response_gen_rank,
    \<lambda>r. chat_gen_rank (response_gen_inner r), \<lambda>r. chat_gen_left (response_gen_inner r)]) fst")
  show "wf (inv_image (measures [response_gen_rank,
    \<lambda>r. chat_gen_rank (response_gen_inner r), \<lambda>r. chat_gen_left (response_gen_inner r)]) fst)"
    by simp
next
  fix r :: response_gen and response_text :: string and w :: world
  fix x1 x2 chunk r' w' t
  assume "(x1, x2) = response_next r w" "x1 = Yielded chunk" "(r', w') = x2"
  then have "response_next r w = (Yielded chunk, r', w')" by simp
  from response_next_Yielded [OF this]
  show "((r', t, w'\<lparr>markdown := markdown w' @ [t]\<rparr>), (r, response_text, w))
        \<in> inv_image (measures [response_gen_rank,
            \<lambda>r. chat_gen_rank (response_gen_inner r),
            \<lambda>r. chat_gen_left (response_gen_inner r)]) fst"
    by simp
qed

text \<open>
  One rerun of the page with the chat input \<open>prompt\<close>: the exception that ends the run,
  if any, the session and the world afterwards.
\<close>

definition on_prompt ::
  "(string \<Rightarrow> string \<Rightarrow> error + provider) \<Rightarrow> (string \<rightharpoonup> string) \<Rightarrow>
   string option \<Rightarrow> session \<Rightarrow> world \<Rightarrow> error option \<times> session \<times> world" where
  "on_prompt OpenAI environ prompt st w =
     (if \<not> truthy prompt then (None, st, w)
      else
        (let st1 = append_message \<lparr>role = ''user'', content = prompt\<rparr> st
         in case init OpenAI environ None None None w of
              (Inl e, w1) \<Rightarrow> (Some e, st1, w1)
            | (Inr cl, w1) \<Rightarrow>
                (case compose_messages st1 of
                   (messages, h) \<Rightarrow>
                     (case consume
                             (stream_perplexity_response cl (map ((!) h) messages)
                                (st_model st1) True) [] w1 of
                        (Some e, response_text, w2) \<Rightarrow> (Some e, st1\<lparr>objects := h\<rparr>, w2)
                      | (None, response_text, w2) \<Rightarrow>
                          (None,
                           append_message \<lparr>role = ''assistant'', content = Some response_text\<rparr>
                             (st1\<lparr>objects := h\<rparr>),
                           w2)))))"

subsection \<open>The session at its start\<close>

text \<open>The models the page offers.\<close>

definition AVAILABLE_MODELS :: "string list" where
  "AVAILABLE_MODELS = [''sonar-pro'', ''sonar'', ''sonar-deep-research'', ''r1-1776'']"

text \<open>A new session: no message, no document, the default system prompt and the first model.\<close>

definition initial_session :: session where
  "initial_session =
     \<lparr>objects = [], st_messages = [], st_pdf_content = [],
      st_system_prompt = ''Be precise and concise.'', st_model = AVAILABLE_MODELS ! 0\<rparr>"

section \<open>Notions used to state the properties\<close>

text \<open>
  A streaming call that raises before its first chunk leaves the caller where a stream
  that raises at once does: no chunk, then the error.
\<close>

definition stream_answer :: "error + chunk_stream \<Rightarrow> chunk_stream" where
  "stream_answer a = (case a of Inl e \<Rightarrow> ([], Some e) | Inr p \<Rightarrow> p)"

text \<open>
  The texts the page shows while fragments arrive: the text so far after each fragment.
\<close>

fun texts_after :: "string \<Rightarrow> string list \<Rightarrow> string list" where
  "texts_after t [] = []"
| "texts_after t (x # xs) = (t @ x) # texts_after (t @ x) xs"

text \<open>
  The specification's reading of a streamed chunk: each chunk optionally contains a
  content fragment at \<open>choices[0].delta.content\<close>; a chunk without one contributes
  nothing to the response.
\<close>

definition spec_chunk_content :: "chunk \<Rightarrow> string" where
  "spec_chunk_content c =
     (case chunk_choices c of
        Attr (Some (ch # rest)) \<Rightarrow>
          (case delta ch of
             Attr d \<Rightarrow> (case delta_content d of Attr (Some s) \<Rightarrow> s | _ \<Rightarrow> [])
           | _ \<Rightarrow> [])
      | _ \<Rightarrow> [])"

text \<open>
  The specification's reading of the document-context injection, on message values: the
  first message whose role is \<open>user\<close> is rewritten, every other message is kept.
\<close>

fun spec_first_user_rewritten :: "string \<Rightarrow> message list \<Rightarrow> message list" where
  "spec_first_user_rewritten pdf [] = []"
| "spec_first_user_rewritten pdf (m # ms) =
     (if role m = ''user'' then context_message pdf m # ms
      else m # spec_first_user_rewritten pdf ms)"

section \<open>A mock provider and sample sessions\<close>

text \<open>A chunk whose delta carries the content \<open>s\<close>.\<close>

definition text_chunk :: "string \<Rightarrow> chunk" where
  "text_chunk s =
     \<lparr>chunk_choices = Attr (Some [\<lparr>delta = Attr \<lparr>delta_content = Attr (Some s)\<rparr>\<rparr>])\<rparr>"

text \<open>
  A deterministic provider: it answers every request with the same completion and, when
  streaming, with the same chunks followed by the same ending.
\<close>

definition mock_provider :: "string \<Rightarrow> chunk list \<Rightarrow> error option \<Rightarrow> provider" where
  "mock_provider answer cs err =
     \<lparr>create = (\<lambda>r. Inr \<lparr>choices = [\<lparr>message_content = Some answer\<rparr>]\<rparr>),
      create_stream = (\<lambda>r. Inr (cs, err))\<rparr>"

text \<open>A provider whose calls raise.\<close>

definition failing_provider :: "error \<Rightarrow> provider" where
  "failing_provider e = \<lparr>create = (\<lambda>r. Inl e), create_stream = (\<lambda>r. Inl e)\<rparr>"

text \<open>A constructor of the provider library that succeeds.\<close>

definition mock_OpenAI :: "provider \<Rightarrow> string \<Rightarrow> string \<Rightarrow> error + provider" where
  "mock_OpenAI p k b = Inr p"

text \<open>The client built with \<open>api_key="k"\<close> and the default base URL and model.\<close>

definition mock_client :: "provider \<Rightarrow> perplexity_client" where
  "mock_client p =
     \<lparr>api_key = ''k'', base_url = DEFAULT_BASE_URL, default_model = DEFAULT_MODEL, client = p\<rparr>"

text \<open>Nothing sent, printed or shown yet.\<close>

definition world0 :: world where
  "world0 = \<lparr>requests = [], stdout = [], markdown = []\<rparr>"

text \<open>A session with a loaded document and one completed turn.\<close>

definition session_after_one_turn :: session where
  "session_after_one_turn =
     \<lparr>objects = [\<lparr>role = ''user'', content = Some ''q1''\<rparr>,
                 \<lparr>role = ''assistant'', content = Some ''a1''\<rparr>],
      st_messages = [0, 1], st_pdf_content = ''DOC'',
      st_system_prompt = ''Be precise and concise.'', st_model = ''sonar-pro''\<rparr>"

section \<open>Properties\<close>

declare iterate.simps [simp del] consume.simps [simp del]

lemma iterate_AtYield:
  "iterate (AtYield cs err) w =
     (List.map_filter chunk_fragment cs,
      (case err of None \<Rightarrow> Returned None | Some e \<Rightarrow> Failed e),
      (case err of None \<Rightarrow> w | Some e \<Rightarrow> snd (snd (chat_except e w))))"
proof (induction cs)
  case Nil
  show ?case
    by (subst iterate.simps) (simp add: chat_except_def List.map_filter_simps split: option.splits)
next
  case (Cons c cs)
  show ?case
  proof (cases "chunk_fragment c")
    case None
    have "iterate (AtYield (c # cs) err) w = iterate (AtYield cs err) w"
      by (subst iterate.simps, subst (2) iterate.simps) (simp add: None)
    then show ?thesis by (simp add: Cons None List.map_filter_simps)
  next
    case (Some s)
    then show ?thesis
      by (subst iterate.simps) (simp add: Cons List.map_filter_simps)
  qed
qed

lemma chunk_fragment_Some:
  "(chunk_fragment c = Some s) =
     (s \<noteq> [] \<and> (\<exists>ch rest d. chunk_choices c = Attr (Some (ch # rest)) \<and> delta ch = Attr d \<and>
        delta_content d = Attr (Some s)))"
  by (auto simp: chunk_fragment_def truthy_def Let_def split: attr.splits option.splits list.splits)

lemma stream_loop_requests:
  "requests (snd (snd (stream_loop cs err w))) = requests w"
proof (induction cs)
  case Nil
  show ?case by (cases err) (simp_all add: chat_except_def py_print_def)
next
  case (Cons c cs)
  then show ?case by (cases "chunk_fragment c") simp_all
qed

lemma chat_next_Created_requests:
  "requests (snd (snd (chat_next (chat self message model system_prompt messages stream) w))) =
     requests w @
       [\<lparr>req_model = or_default model (default_model self),
         req_messages = chat_messages message system_prompt messages,
         req_stream = stream\<rparr>]"
  by (cases stream)
     (auto simp: chat_def chat_body_def Let_def chat_except_def py_print_def send_def
        stream_loop_requests split: sum.splits prod.splits list.splits)

text \<open>
  Claim C9, as the code has it. The request that \<open>chat\<close> sends carries the
  \<open>model\<close> argument as its model when that argument is a non-empty string, and
  the client's \<open>default_model\<close> when it is \<open>None\<close> or empty; when no
  \<open>messages\<close> are given, the system message carries the \<open>system_prompt\<close>
  argument when it is a non-empty string and \<open>"Be precise and concise."\<close> when it
  is \<open>None\<close> or empty. The claim as written (the option whenever it is supplied)
  fails for the empty string, which Python's \<open>or\<close> treats as absent.
\<close>

theorem chat_effective_model_and_prompt:
  "requests (snd (snd (chat_next (chat self message model system_prompt None stream) w))) =
     requests w @
       [\<lparr>req_model = (case model of None \<Rightarrow> default_model self
                       | Some m \<Rightarrow> if m = [] then default_model self else m),
         req_messages =
           [\<lparr>role = ''system'',
              content = Some (case system_prompt of None \<Rightarrow> ''Be precise and concise.''
                              | Some p \<Rightarrow> if p = [] then ''Be precise and concise.'' else p)\<rparr>,
            \<lparr>role = ''user'', content = message\<rparr>],
         req_stream = stream\<rparr>] \<and>
   map req_model
     (requests (snd (snd (chat_next (chat self message model system_prompt (Some ms) stream) w)))) =
     map req_model (requests w) @
       [case model of None \<Rightarrow> default_model self
        | Some m \<Rightarrow> if m = [] then default_model self else m]"
  by (simp add: chat_next_Created_requests or_default_def chat_messages_def
      DEFAULT_SYSTEM_PROMPT_def split: option.splits)

theorem chat_empty_model_option_counterexample:
  "map req_model
     (requests (snd (snd (chat_next
        (chat (mock_client (mock_provider ''ok'' [] None)) (Some ''hi'') (Some []) None None False)
        world0)))) = [''sonar''] \<and>
   map req_model
     (requests (snd (snd (chat_next
        (chat (mock_client (mock_provider ''ok'' [] None)) (Some ''hi'') (Some []) None None False)
        world0)))) \<noteq> [[]]"
  by (simp add: chat_next_Created_requests or_default_def mock_client_def DEFAULT_MODEL_def
      world0_def)

theorem chat_effective_model_and_prompt_witness:
  "requests (snd (snd (chat_next
     (chat (mock_client (mock_provider ''ok'' [] None)) (Some ''hi'') (Some ''sonar-pro'')
        (Some ''Be brief.'') None False) world0))) =
     [\<lparr>req_model = ''sonar-pro'',
       req_messages = [\<lparr>role = ''system'', content = Some ''Be brief.''\<rparr>,
                       \<lparr>role = ''user'', content = Some ''hi''\<rparr>],
       req_stream = False\<rparr>] \<and>
   requests (snd (snd (chat_next
     (chat (mock_client (mock_provider ''ok'' [] None)) (Some ''hi'') None None None True)
        world0))) =
     [\<lparr>req_model = ''sonar'',
       req_messages = [\<lparr>role = ''system'', content = Some ''Be precise and concise.''\<rparr>,
                       \<lparr>role = ''user'', content = Some ''hi''\<rparr>],
       req_stream = True\<rparr>]"
  using
    chat_effective_model_and_prompt
      [where self = "mock_client (mock_provider ''ok'' [] None)" and message = "Some ''hi''"
        and model = "Some ''sonar-pro''" and system_prompt = "Some ''Be brief.''"
        and stream = False and w = world0 and ms = "[]"]
    chat_effective_model_and_prompt
      [where self = "mock_client (mock_provider ''ok'' [] None)" and message = "Some ''hi''"
        and model = None and system_prompt = None
        and stream = True and w = world0 and ms = "[]"]
  by (simp add: mock_client_def DEFAULT_MODEL_def world0_def)

text \<open>
  Claim C6. When \<open>messages\<close> is not \<open>None\<close> the request carries exactly that
  list, and the whole behaviour of the generator is the same whatever \<open>message\<close> and
  \<open>system_prompt\<close> are; when \<open>messages\<close> is \<open>None\<close> the request carries
  two messages, in this order: the system message, whose content is the
  \<open>system_prompt\<close> argument when that is a non-empty string and
  \<open>"Be precise and concise."\<close> when it is \<open>None\<close> or empty, and then the user
  message with the \<open>message\<close> argument.
\<close>

theorem chat_messages_override:
  "map req_messages
     (requests (snd (snd (chat_next (chat self message model system_prompt (Some ms) stream) w)))) =
     map req_messages (requests w) @ [ms] \<and>
   chat_next (chat self message model system_prompt (Some ms) stream) w =
     chat_next (chat self message' model system_prompt' (Some ms) stream) w \<and>
   map req_messages
     (requests (snd (snd (chat_next (chat self message model system_prompt None stream) w)))) =
     map req_messages (requests w) @
       [[\<lparr>role = ''system'',
          content = Some (case system_prompt of None \<Rightarrow> ''Be precise and concise.''
                          | Some p \<Rightarrow> if p = [] then ''Be precise and concise.'' else p)\<rparr>,
         \<lparr>role = ''user'', content = message\<rparr>]]"
proof -
  have verbatim: "map req_messages
     (requests (snd (snd (chat_next (chat self message model system_prompt (Some ms) stream) w)))) =
     map req_messages (requests w) @ [ms]"
    by (simp add: chat_next_Created_requests chat_messages_def)
  have ignored: "chat_next (chat self message model system_prompt (Some ms) stream) w =
     chat_next (chat self message' model system_prompt' (Some ms) stream) w"
    by (simp add: chat_def chat_body_def chat_messages_def)
  have synthesized: "map req_messages
     (requests (snd (snd (chat_next (chat self message model system_prompt None stream) w)))) =
     map req_messages (requests w) @
       [[\<lparr>role = ''system'',
          content = Some (case system_prompt of None \<Rightarrow> ''Be precise and concise.''
                          | Some p \<Rightarrow> if p = [] then ''Be precise and concise.'' else p)\<rparr>,
         \<lparr>role = ''user'', content = message\<rparr>]]"
    by (simp add: chat_next_Created_requests chat_messages_def or_default_def
        DEFAULT_SYSTEM_PROMPT_def split: option.splits)
  show ?thesis by (intro conjI; fact)
qed

theorem chat_messages_override_witness:
  "map req_messages (requests (snd (snd (chat_next
     (chat (mock_client (mock_provider ''ok'' [] None)) (Some ''ignored'') None
        (Some ''ignored too'') (Some [\<lparr>role = ''user'', content = Some ''x''\<rparr>]) True)
     world0)))) = [[\<lparr>role = ''user'', content = Some ''x''\<rparr>]] \<and>
   map req_messages (requests (snd (snd (chat_next
     (chat (mock_client (mock_provider ''ok'' [] None)) (Some ''hi'') None None None True)
     world0)))) =
     [[\<lparr>role = ''system'', content = Some ''Be precise and concise.''\<rparr>,
       \<lparr>role = ''user'', content = Some ''hi''\<rparr>]] \<and>
   map req_messages (requests (snd (snd (chat_next
     (chat (mock_client (mock_provider ''ok'' [] None)) (Some ''hi'') None (Some ''Be brief.'')
        None True)
     world0)))) =
     [[\<lparr>role = ''system'', content = Some ''Be brief.''\<rparr>,
       \<lparr>role = ''user'', content = Some ''hi''\<rparr>]] \<and>
   map req_messages (requests (snd (snd (chat_next
     (chat (mock_client (mock_provider ''ok'' [] None)) (Some ''hi'') None (Some []) None False)
     world0)))) =
     [[\<lparr>role = ''system'', content = Some ''Be precise and concise.''\<rparr>,
       \<lparr>role = ''user'', content = Some ''hi''\<rparr>]]"
  using
    chat_messages_override
      [where self = "mock_client (mock_provider ''ok'' [] None)" and message = "Some ''ignored''"
        and model = None and system_prompt = "Some ''ignored too''"
        and ms = "[\<lparr>role = ''user'', content = Some ''x''\<rparr>]"
        and stream = True and w = world0 and message' = None and system_prompt' = None,
        THEN conjunct1]
    chat_messages_override
      [where self = "mock_client (mock_provider ''ok'' [] None)" and message = "Some ''hi''"
        and model = None and system_prompt = None and ms = "[]"
        and stream = True and w = world0 and message' = None and system_prompt' = None,
        THEN conjunct2, THEN conjunct2]
    chat_messages_override
      [where self = "mock_client (mock_provider ''ok'' [] None)" and message = "Some ''hi''"
        and model = None and system_prompt = "Some ''Be brief.''" and ms = "[]"
        and stream = True and w = world0 and message' = None and system_prompt' = None,
        THEN conjunct2, THEN conjunct2]
    chat_messages_override
      [where self = "mock_client (mock_provider ''ok'' [] None)" and message = "Some ''hi''"
        and model = None and system_prompt = "Some []" and ms = "[]"
        and stream = False and w = world0 and message' = None and system_prompt' = None,
        THEN conjunct2, THEN conjunct2]
  by (simp add: world0_def)

text \<open>
  Claim C3. When neither the \<open>api_key\<close> argument nor the environment variable
  \<open>PERPLEXITY_API_KEY\<close> holds a non-empty string, construction raises
  \<open>ValueError\<close> (the specification's ConfigurationError) and leaves the world as it
  was: nothing is sent, and the provider library's constructor is not reached. A
  non-empty argument is the key whatever the environment holds; without it, a non-empty
  environment variable is the key.
\<close>

theorem init_key_resolution:
  "(\<not> truthy api_key_arg \<and> \<not> truthy (environ ''PERPLEXITY_API_KEY'') \<longrightarrow>
      init OpenAI environ api_key_arg base_url_arg default_model_arg w =
        (Inl (ValueError missing_key_message), w)) \<and>
   (k \<noteq> [] \<longrightarrow>
      fst (init OpenAI environ (Some k) base_url_arg default_model_arg w) =
        (case OpenAI k (or_default base_url_arg DEFAULT_BASE_URL) of
           Inl e \<Rightarrow> Inl e
         | Inr p \<Rightarrow> Inr \<lparr>api_key = k, base_url = or_default base_url_arg DEFAULT_BASE_URL,
                         default_model = or_default default_model_arg DEFAULT_MODEL,
                         client = p\<rparr>)) \<and>
   (\<not> truthy api_key_arg \<and> environ ''PERPLEXITY_API_KEY'' = Some k \<and> k \<noteq> [] \<longrightarrow>
      fst (init OpenAI environ api_key_arg base_url_arg default_model_arg w) =
        (case OpenAI k (or_default base_url_arg DEFAULT_BASE_URL) of
           Inl e \<Rightarrow> Inl e
         | Inr p \<Rightarrow> Inr \<lparr>api_key = k, base_url = or_default base_url_arg DEFAULT_BASE_URL,
                         default_model = or_default default_model_arg DEFAULT_MODEL,
                         client = p\<rparr>))"
  by (auto simp: init_def py_or_def truthy_def Let_def split: option.splits sum.splits)

theorem init_key_resolution_witness:
  "init (mock_OpenAI (mock_provider ''ok'' [] None)) [''PERPLEXITY_API_KEY'' \<mapsto> []]
      (Some []) None None world0 = (Inl (ValueError missing_key_message), world0) \<and>
   fst (init (mock_OpenAI (mock_provider ''ok'' [] None)) [''PERPLEXITY_API_KEY'' \<mapsto> ''e'']
      (Some ''k'') None None world0) =
     Inr \<lparr>api_key = ''k'', base_url = ''https://api.perplexity.ai'', default_model = ''sonar'',
          client = mock_provider ''ok'' [] None\<rparr> \<and>
   fst (init (mock_OpenAI (mock_provider ''ok'' [] None)) [''PERPLEXITY_API_KEY'' \<mapsto> ''e'']
      None None None world0) =
     Inr \<lparr>api_key = ''e'', base_url = ''https://api.perplexity.ai'', default_model = ''sonar'',
          client = mock_provider ''ok'' [] None\<rparr>"
  using
    init_key_resolution [where api_key_arg = "Some []"
      and environ = "[''PERPLEXITY_API_KEY'' \<mapsto> []]"
      and OpenAI = "mock_OpenAI (mock_provider ''ok'' [] None)"
      and base_url_arg = None and default_model_arg = None and w = world0 and k = "''k''"]
    init_key_resolution [where api_key_arg = None
      and environ = "[''PERPLEXITY_API_KEY'' \<mapsto> ''e'']"
      and OpenAI = "mock_OpenAI (mock_provider ''ok'' [] None)"
      and base_url_arg = None and default_model_arg = None and w = world0 and k = "''k''"]
    init_key_resolution [where api_key_arg = None
      and environ = "[''PERPLEXITY_API_KEY'' \<mapsto> ''e'']"
      and OpenAI = "mock_OpenAI (mock_provider ''ok'' [] None)"
      and base_url_arg = None and default_model_arg = None and w = world0 and k = "''e''"]
  by (simp add: truthy_def mock_OpenAI_def or_default_def DEFAULT_BASE_URL_def DEFAULT_MODEL_def)

lemma iterate_cong_next:
  "chat_next g w = chat_next g' w' \<Longrightarrow> iterate g w = iterate g' w'"
  by (subst iterate.simps, subst (2) iterate.simps) simp

lemma iterate_chat_stream:
  "iterate (chat self message model system_prompt messages True) w =
     (case create_stream (client self)
             \<lparr>req_model = or_default model (default_model self),
              req_messages = chat_messages message system_prompt messages,
              req_stream = True\<rparr> of
        Inl e \<Rightarrow>
          ([], Failed e,
           snd (snd (chat_except e
             (send \<lparr>req_model = or_default model (default_model self),
                    req_messages = chat_messages message system_prompt messages,
                    req_stream = True\<rparr> w))))
      | Inr (cs, err) \<Rightarrow>
          iterate (AtYield cs err)
            (send \<lparr>req_model = or_default model (default_model self),
                   req_messages = chat_messages message system_prompt messages,
                   req_stream = True\<rparr> w))"
proof (cases "create_stream (client self)
             \<lparr>req_model = or_default model (default_model self),
              req_messages = chat_messages message system_prompt messages,
              req_stream = True\<rparr>")
  case (Inl e)
  then show ?thesis
    by (subst iterate.simps) (simp add: chat_def chat_body_def Let_def chat_except_def)
next
  case (Inr p)
  obtain cs err where p: "p = (cs, err)" by (cases p)
  have "chat_next (chat self message model system_prompt messages True) w =
        chat_next (AtYield cs err)
          (send \<lparr>req_model = or_default model (default_model self),
                 req_messages = chat_messages message system_prompt messages,
                 req_stream = True\<rparr> w)"
    using Inr p by (simp add: chat_def chat_body_def Let_def)
  from iterate_cong_next [OF this] show ?thesis using Inr p by simp
qed

lemma chat_next_nonstream:
  "chat_next (chat self message model system_prompt messages False) w =
     (case create (client self)
             \<lparr>req_model = or_default model (default_model self),
              req_messages = chat_messages message system_prompt messages,
              req_stream = False\<rparr> of
        Inl e \<Rightarrow>
          chat_except e
            (send \<lparr>req_model = or_default model (default_model self),
                   req_messages = chat_messages message system_prompt messages,
                   req_stream = False\<rparr> w)
      | Inr response \<Rightarrow>
          (case choices response of
             [] \<Rightarrow>
               chat_except (IndexError ''list index out of range'')
                 (py_print (PrintResponse response)
                   (send \<lparr>req_model = or_default model (default_model self),
                          req_messages = chat_messages message system_prompt messages,
                          req_stream = False\<rparr> w))
           | ch # rest \<Rightarrow>
               (StopIteration (message_content ch), Finished,
                py_print (PrintResponse response)
                  (send \<lparr>req_model = or_default model (default_model self),
                         req_messages = chat_messages message system_prompt messages,
                         req_stream = False\<rparr> w))))"
  by (simp add: chat_def chat_body_def Let_def split: sum.splits list.splits)

lemma chat_next_nonstream_not_Yielded:
  "chat_next (chat self message model system_prompt messages False) w \<noteq> (Yielded s, g', w')"
  by (simp add: chat_next_nonstream chat_except_def split: sum.splits list.splits)

lemma iterate_chat_nonstream:
  "fst (iterate (chat self message model system_prompt messages False) w) = []"
  by (subst iterate.simps)
     (simp add: chat_next_nonstream chat_except_def split: sum.splits list.splits)

lemma chunk_fragment_text:
  "(case chunk_fragment c of None \<Rightarrow> [] | Some s \<Rightarrow> s) = spec_chunk_content c"
  by (auto simp: chunk_fragment_def spec_chunk_content_def truthy_def Let_def
      split: attr.splits option.splits list.splits)

lemma concat_fragments:
  "concat (List.map_filter chunk_fragment cs) = concat (map spec_chunk_content cs)"
proof (induction cs)
  case Nil
  show ?case by (simp add: List.map_filter_simps)
next
  case (Cons c cs)
  from chunk_fragment_text [of c] Cons show ?case
    by (cases "chunk_fragment c") (simp_all add: List.map_filter_simps)
qed

lemma length_map_filter_le: "length (List.map_filter f xs) \<le> length xs"
  by (induction xs) (simp_all add: List.map_filter_simps split: option.splits)

text \<open>
  Claim C8. The fragments a streaming call yields are, in order, the contents of exactly
  those chunks of the provider's stream that carry one; the empty string is never
  yielded; and a chunk carries a content exactly when it has a first choice whose delta
  has a \<open>content\<close> attribute holding a non-empty string (so a missing attribute,
  \<open>None\<close> and the empty string are all skipped).
\<close>

theorem streamed_fragments:
  "fst (iterate (chat self message model system_prompt messages True) w) =
     (case create_stream (client self)
             \<lparr>req_model = or_default model (default_model self),
              req_messages = chat_messages message system_prompt messages,
              req_stream = True\<rparr> of
        Inl e \<Rightarrow> []
      | Inr (cs, err) \<Rightarrow> List.map_filter chunk_fragment cs) \<and>
   [] \<notin> set (fst (iterate (chat self message model system_prompt messages True) w)) \<and>
   (chunk_fragment c = Some s) =
     (s \<noteq> [] \<and>
      (\<exists>ch rest d. chunk_choices c = Attr (Some (ch # rest)) \<and> delta ch = Attr d \<and>
         delta_content d = Attr (Some s)))"
proof -
  have a: "fst (iterate (chat self message model system_prompt messages True) w) =
     (case create_stream (client self)
             \<lparr>req_model = or_default model (default_model self),
              req_messages = chat_messages message system_prompt messages,
              req_stream = True\<rparr> of
        Inl e \<Rightarrow> []
      | Inr (cs, err) \<Rightarrow> List.map_filter chunk_fragment cs)"
    by (simp add: iterate_chat_stream iterate_AtYield split: sum.splits prod.splits)
  have b: "[] \<notin> set (List.map_filter chunk_fragment cs)" for cs
    by (induction cs) (auto simp: chunk_fragment_Some split: option.splits)
  have "[] \<notin> set (fst (iterate (chat self message model system_prompt messages True) w))"
    unfolding a using b by (simp split: sum.splits prod.splits)
  with a chunk_fragment_Some [of c s] show ?thesis by simp
qed

theorem streamed_fragments_witness:
  "fst (iterate
     (chat (mock_client (mock_provider ''ok''
        [text_chunk ''ab'', \<lparr>chunk_choices = Missing\<rparr>, \<lparr>chunk_choices = Attr (Some [])\<rparr>,
         text_chunk [], \<lparr>chunk_choices = Attr (Some [\<lparr>delta = Attr \<lparr>delta_content = Attr None\<rparr>\<rparr>])\<rparr>,
         \<lparr>chunk_choices = Attr (Some [\<lparr>delta = Attr \<lparr>delta_content = Missing\<rparr>\<rparr>])\<rparr>,
         text_chunk ''c''] None))
        (Some ''hi'') None None None True) world0) = [''ab'', ''c'']"
  using
    streamed_fragments
      [where self = "mock_client (mock_provider ''ok''
        [text_chunk ''ab'', \<lparr>chunk_choices = Missing\<rparr>, \<lparr>chunk_choices = Attr (Some [])\<rparr>,
         text_chunk [], \<lparr>chunk_choices = Attr (Some [\<lparr>delta = Attr \<lparr>delta_content = Attr None\<rparr>\<rparr>])\<rparr>,
         \<lparr>chunk_choices = Attr (Some [\<lparr>delta = Attr \<lparr>delta_content = Missing\<rparr>\<rparr>])\<rparr>,
         text_chunk ''c''] None)"
        and message = "Some ''hi''" and model = None and system_prompt = None
        and messages = None and w = world0 and c = "text_chunk ''ab''" and s = "''ab''"]
  by (simp add: mock_client_def mock_provider_def chunk_fragment_def text_chunk_def truthy_def)

text \<open>
  Claim C2. Whatever the \<open>stream\<close> flag, calling \<open>chat\<close> gives a generator that
  has not started: the call is a function of its arguments alone and touches no world,
  so no request is sent by it. With \<open>stream=False\<close>, \<open>next\<close> on that generator
  never yields, iterating it gives no fragment, the one request is sent by the first
  \<open>next\<close>, and the content of the first choice arrives as the value carried by
  \<open>StopIteration\<close> (or an exception is raised).
\<close>

theorem chat_is_lazy_generator:
  "chat self message model system_prompt messages stream =
     Created self message model system_prompt messages stream \<and>
   (\<forall>s g' w'. chat_next (chat self message model system_prompt messages False) w \<noteq>
      (Yielded s, g', w')) \<and>
   fst (iterate (chat self message model system_prompt messages False) w) = [] \<and>
   requests (snd (snd (chat_next (chat self message model system_prompt messages False) w))) =
     requests w @
       [\<lparr>req_model = or_default model (default_model self),
         req_messages = chat_messages message system_prompt messages,
         req_stream = False\<rparr>] \<and>
   fst (chat_next (chat self message model system_prompt messages False) w) =
     (case create (client self)
             \<lparr>req_model = or_default model (default_model self),
              req_messages = chat_messages message system_prompt messages,
              req_stream = False\<rparr> of
        Inl e \<Rightarrow> Raised e
      | Inr response \<Rightarrow>
          (case choices response of
             [] \<Rightarrow> Raised (IndexError ''list index out of range'')
           | ch # rest \<Rightarrow> StopIteration (message_content ch)))"
proof -
  have "fst (chat_next (chat self message model system_prompt messages False) w) =
     (case create (client self)
             \<lparr>req_model = or_default model (default_model self),
              req_messages = chat_messages message system_prompt messages,
              req_stream = False\<rparr> of
        Inl e \<Rightarrow> Raised e
      | Inr response \<Rightarrow>
          (case choices response of
             [] \<Rightarrow> Raised (IndexError ''list index out of range'')
           | ch # rest \<Rightarrow> StopIteration (message_content ch)))"
    by (simp add: chat_next_nonstream chat_except_def split: sum.splits list.splits)
  then show ?thesis
    using chat_next_nonstream_not_Yielded [of self message model system_prompt messages w]
      iterate_chat_nonstream [of self message model system_prompt messages w]
      chat_next_Created_requests [of self message model system_prompt messages False w]
    by (simp add: chat_def)
qed

theorem chat_is_lazy_generator_witness:
  "fst (iterate
     (chat (mock_client (mock_provider ''About 100 billion.'' [] None))
        (Some ''How many stars are there in our galaxy?'') None None None False) world0) = [] \<and>
   requests (snd (snd (chat_next
     (chat (mock_client (mock_provider ''About 100 billion.'' [] None))
        (Some ''How many stars are there in our galaxy?'') None None None False) world0))) =
     [\<lparr>req_model = ''sonar'',
       req_messages = [\<lparr>role = ''system'', content = Some ''Be precise and concise.''\<rparr>,
                       \<lparr>role = ''user'',
                        content = Some ''How many stars are there in our galaxy?''\<rparr>],
       req_stream = False\<rparr>] \<and>
   fst (chat_next
     (chat (mock_client (mock_provider ''About 100 billion.'' [] None))
        (Some ''How many stars are there in our galaxy?'') None None None False) world0) =
     StopIteration (Some ''About 100 billion.'')"
  using
    chat_is_lazy_generator
      [where self = "mock_client (mock_provider ''About 100 billion.'' [] None)"
        and message = "Some ''How many stars are there in our galaxy?''"
        and model = None and system_prompt = None and messages = None and stream = False
        and w = world0, THEN conjunct2, THEN conjunct2]
  by (simp add: mock_client_def mock_provider_def world0_def or_default_def chat_messages_def
      DEFAULT_MODEL_def DEFAULT_SYSTEM_PROMPT_def)

text \<open>
  Claim C1, at the scenario of the specification: the client built with \<open>api_key="k"\<close>
  and the defaults, the question about the stars, \<open>stream=False\<close>, a provider
  answering \<open>"About 100 billion."\<close>. The docstring of \<open>chat\<close> promises a
  \<open>str\<close> here and the module's example prints the result as the response; the call
  gives a generator that has not started, and the string is the value that
  \<open>StopIteration\<close> carries at the first \<open>next\<close>.
\<close>

theorem chat_scenario_yields_generator:
  "fst (init (mock_OpenAI (mock_provider ''About 100 billion.'' [] None)) Map.empty
     (Some ''k'') None None world0) =
     Inr (mock_client (mock_provider ''About 100 billion.'' [] None)) \<and>
   chat (mock_client (mock_provider ''About 100 billion.'' [] None))
     (Some ''How many stars are there in our galaxy?'') None None None False =
     Created (mock_client (mock_provider ''About 100 billion.'' [] None))
       (Some ''How many stars are there in our galaxy?'') None None None False \<and>
   fst (chat_next
     (chat (mock_client (mock_provider ''About 100 billion.'' [] None))
        (Some ''How many stars are there in our galaxy?'') None None None False) world0) =
     StopIteration (Some ''About 100 billion.'')"
proof -
  have "fst (init (mock_OpenAI (mock_provider ''About 100 billion.'' [] None)) Map.empty
     (Some ''k'') None None world0) =
     Inr (mock_client (mock_provider ''About 100 billion.'' [] None))"
    by (simp add: init_def py_or_def truthy_def or_default_def mock_OpenAI_def mock_client_def)
  moreover have "fst (chat_next
     (chat (mock_client (mock_provider ''About 100 billion.'' [] None))
        (Some ''How many stars are there in our galaxy?'') None None None False) world0) =
     StopIteration (Some ''About 100 billion.'')"
    by (simp add: chat_next_nonstream mock_client_def mock_provider_def)
  ultimately show ?thesis by (simp add: chat_def)
qed

text \<open>
  What the filtering loop keeps. Let the provider answer the streaming request with
  finitely many chunks and a normal end, and the non-streaming request with a completion
  whose first choice holds the concatenation of the chunks' contents. Then the streaming
  generator ends normally after at most as many fragments as there are chunks, and the
  fragments, concatenated in the order they were yielded, are the content that the
  non-streaming generator carries in its \<open>StopIteration\<close>.
\<close>

lemma streamed_content_is_StopIteration_value:
  assumes "create_stream (client self)
             \<lparr>req_model = or_default model (default_model self),
              req_messages = chat_messages message system_prompt messages,
              req_stream = True\<rparr> = Inr (cs, None)"
    and "create (client self)
             \<lparr>req_model = or_default model (default_model self),
              req_messages = chat_messages message system_prompt messages,
              req_stream = False\<rparr> = Inr response"
    and "choices response = ch # rest"
    and "message_content ch = Some (concat (map spec_chunk_content cs))"
  shows "fst (snd (iterate (chat self message model system_prompt messages True) w)) =
           Returned None \<and>
         length (fst (iterate (chat self message model system_prompt messages True) w)) \<le>
           length cs \<and>
         fst (chat_next (chat self message model system_prompt messages False) w') =
           StopIteration
             (Some (concat (fst (iterate (chat self message model system_prompt messages True) w))))"
  using assms
  by (simp add: iterate_chat_stream iterate_AtYield chat_next_nonstream concat_fragments
      length_map_filter_le)

text \<open>
  Claim C7, at a deterministic provider that streams \<open>"About "\<close>, an empty delta and
  \<open>"100 billion."\<close> and whose completion holds \<open>"About 100 billion."\<close>. The
  streaming call yields finitely many fragments, ends normally, and the fragments
  concatenate to \<open>"About 100 billion."\<close>. The equivalent non-streaming call does not
  return that content: it gives a generator that has not started, iterating that
  generator yields nothing, so its fragments concatenate to the empty string, and the
  content is only the value that \<open>StopIteration\<close> carries at the first \<open>next\<close>.
  This is the behaviour of claim C1, from the same \<open>yield\<close> in the body of
  \<open>chat\<close>.
\<close>

theorem streaming_and_nonstreaming_call_scenario:
  "fst (iterate
     (chat (mock_client (mock_provider ''About 100 billion.''
        [text_chunk ''About '', text_chunk [], text_chunk ''100 billion.''] None))
        (Some ''How many stars are there in our galaxy?'') None None None True) world0) =
     [''About '', ''100 billion.''] \<and>
   fst (snd (iterate
     (chat (mock_client (mock_provider ''About 100 billion.''
        [text_chunk ''About '', text_chunk [], text_chunk ''100 billion.''] None))
        (Some ''How many stars are there in our galaxy?'') None None None True) world0)) =
     Returned None \<and>
   concat (fst (iterate
     (chat (mock_client (mock_provider ''About 100 billion.''
        [text_chunk ''About '', text_chunk [], text_chunk ''100 billion.''] None))
        (Some ''How many stars are there in our galaxy?'') None None None True) world0)) =
     ''About 100 billion.'' \<and>
   chat (mock_client (mock_provider ''About 100 billion.''
        [text_chunk ''About '', text_chunk [], text_chunk ''100 billion.''] None))
     (Some ''How many stars are there in our galaxy?'') None None None False =
     Created (mock_client (mock_provider ''About 100 billion.''
        [text_chunk ''About '', text_chunk [], text_chunk ''100 billion.''] None))
       (Some ''How many stars are there in our galaxy?'') None None None False \<and>
   concat (fst (iterate
     (chat (mock_client (mock_provider ''About 100 billion.''
        [text_chunk ''About '', text_chunk [], text_chunk ''100 billion.''] None))
        (Some ''How many stars are there in our galaxy?'') None None None False) world0)) =
     [] \<and>
   fst (chat_next
     (chat (mock_client (mock_provider ''About 100 billion.''
        [text_chunk ''About '', text_chunk [], text_chunk ''100 billion.''] None))
        (Some ''How many stars are there in our galaxy?'') None None None False) world0) =
     StopIteration (Some ''About 100 billion.'')"
proof -
  let ?p = "mock_provider ''About 100 billion.''
        [text_chunk ''About '', text_chunk [], text_chunk ''100 billion.''] None"
  let ?q = "Some ''How many stars are there in our galaxy?''"
  have frs: "fst (iterate (chat (mock_client ?p) ?q None None None True) world0) =
      [''About '', ''100 billion.'']"
    by (simp add: iterate_chat_stream iterate_AtYield mock_client_def mock_provider_def
        chunk_fragment_def text_chunk_def truthy_def)
  have joined: "concat (fst (iterate (chat (mock_client ?p) ?q None None None True) world0)) =
      ''About 100 billion.''"
    unfolding frs by simp
  have "fst (snd (iterate (chat (mock_client ?p) ?q None None None True) world0)) =
           Returned None \<and>
         length (fst (iterate (chat (mock_client ?p) ?q None None None True) world0)) \<le>
           length [text_chunk ''About '', text_chunk [], text_chunk ''100 billion.''] \<and>
         fst (chat_next (chat (mock_client ?p) ?q None None None False) world0) =
           StopIteration
             (Some (concat (fst (iterate (chat (mock_client ?p) ?q None None None True) world0))))"
    by (rule streamed_content_is_StopIteration_value
        [where response = "\<lparr>choices = [\<lparr>message_content = Some ''About 100 billion.''\<rparr>]\<rparr>"
          and ch = "\<lparr>message_content = Some ''About 100 billion.''\<rparr>" and rest = "[]"])
       (simp_all add: mock_client_def mock_provider_def spec_chunk_content_def text_chunk_def)
  then have ended: "fst (snd (iterate (chat (mock_client ?p) ?q None None None True) world0)) =
           Returned None"
    and carried: "fst (chat_next (chat (mock_client ?p) ?q None None None False) world0) =
           StopIteration (Some ''About 100 billion.'')"
    unfolding joined by simp_all
  have unstarted: "chat (mock_client ?p) ?q None None None False =
      Created (mock_client ?p) ?q None None None False"
    by (simp add: chat_def)
  have nothing: "concat (fst (iterate (chat (mock_client ?p) ?q None None None False) world0)) = []"
    by (simp add: iterate_chat_nonstream)
  show ?thesis by (intro conjI; fact)
qed

text \<open>
  Claim C10. When the provider's call raises, for a non-streaming and for a streaming
  call, the first \<open>next\<close> prints one line (\<open>Perplexity API Error: ...\<close> for the
  provider's error class, \<open>An unexpected error occurred: ...\<close> for any other) and
  raises the same exception; the generator is then finished and no value is produced.
  When the stream raises after some chunks, the fragments before it are yielded and the
  same happens at that point.
\<close>

theorem chat_errors_logged_and_reraised:
  "(create (client self)
       \<lparr>req_model = or_default model (default_model self),
        req_messages = chat_messages message system_prompt messages,
        req_stream = False\<rparr> = Inl e \<longrightarrow>
     chat_next (chat self message model system_prompt messages False) w =
       (Raised e, Finished,
        py_print (PrintText
          ((if is_OpenAIError e then ''Perplexity API Error: ''
            else ''An unexpected error occurred: '') @ error_str e))
          (send \<lparr>req_model = or_default model (default_model self),
                 req_messages = chat_messages message system_prompt messages,
                 req_stream = False\<rparr> w))) \<and>
   (create_stream (client self)
       \<lparr>req_model = or_default model (default_model self),
        req_messages = chat_messages message system_prompt messages,
        req_stream = True\<rparr> = Inl e \<longrightarrow>
     chat_next (chat self message model system_prompt messages True) w =
       (Raised e, Finished,
        py_print (PrintText
          ((if is_OpenAIError e then ''Perplexity API Error: ''
            else ''An unexpected error occurred: '') @ error_str e))
          (send \<lparr>req_model = or_default model (default_model self),
                 req_messages = chat_messages message system_prompt messages,
                 req_stream = True\<rparr> w))) \<and>
   (create_stream (client self)
       \<lparr>req_model = or_default model (default_model self),
        req_messages = chat_messages message system_prompt messages,
        req_stream = True\<rparr> = Inr (cs, Some e) \<longrightarrow>
     iterate (chat self message model system_prompt messages True) w =
       (List.map_filter chunk_fragment cs, Failed e,
        py_print (PrintText
          ((if is_OpenAIError e then ''Perplexity API Error: ''
            else ''An unexpected error occurred: '') @ error_str e))
          (send \<lparr>req_model = or_default model (default_model self),
                 req_messages = chat_messages message system_prompt messages,
                 req_stream = True\<rparr> w)))"
  by (simp add: chat_next_nonstream iterate_chat_stream iterate_AtYield)
     (simp add: chat_def chat_body_def chat_except_def)

theorem chat_errors_logged_and_reraised_witness:
  "chat_next (chat (mock_client (failing_provider (OpenAIError ''401''))) (Some ''hi'')
      None None None False) world0 =
     (Raised (OpenAIError ''401''), Finished,
      \<lparr>requests =
         [\<lparr>req_model = ''sonar'',
           req_messages = [\<lparr>role = ''system'', content = Some ''Be precise and concise.''\<rparr>,
                           \<lparr>role = ''user'', content = Some ''hi''\<rparr>],
           req_stream = False\<rparr>],
       stdout = [PrintText ''Perplexity API Error: 401''], markdown = []\<rparr>) \<and>
   chat_next (chat (mock_client (failing_provider (OtherException ''timeout''))) (Some ''hi'')
      None None None True) world0 =
     (Raised (OtherException ''timeout''), Finished,
      \<lparr>requests =
         [\<lparr>req_model = ''sonar'',
           req_messages = [\<lparr>role = ''system'', content = Some ''Be precise and concise.''\<rparr>,
                           \<lparr>role = ''user'', content = Some ''hi''\<rparr>],
           req_stream = True\<rparr>],
       stdout = [PrintText ''An unexpected error occurred: timeout''], markdown = []\<rparr>) \<and>
   iterate (chat (mock_client (mock_provider ''ok'' [text_chunk ''ab'', text_chunk ''c'']
      (Some (OpenAIError ''reset'')))) (Some ''hi'') None None None True) world0 =
     ([''ab'', ''c''], Failed (OpenAIError ''reset''),
      \<lparr>requests =
         [\<lparr>req_model = ''sonar'',
           req_messages = [\<lparr>role = ''system'', content = Some ''Be precise and concise.''\<rparr>,
                           \<lparr>role = ''user'', content = Some ''hi''\<rparr>],
           req_stream = True\<rparr>],
       stdout = [PrintText ''Perplexity API Error: reset''], markdown = []\<rparr>)"
  using
    chat_errors_logged_and_reraised
      [where self = "mock_client (failing_provider (OpenAIError ''401''))"
        and message = "Some ''hi''" and model = None and system_prompt = None
        and messages = None and w = world0 and e = "OpenAIError ''401''" and cs = "[]"]
    chat_errors_logged_and_reraised
      [where self = "mock_client (failing_provider (OtherException ''timeout''))"
        and message = "Some ''hi''" and model = None and system_prompt = None
        and messages = None and w = world0 and e = "OtherException ''timeout''" and cs = "[]"]
    chat_errors_logged_and_reraised
      [where self = "mock_client (mock_provider ''ok'' [text_chunk ''ab'', text_chunk ''c'']
          (Some (OpenAIError ''reset'')))"
        and message = "Some ''hi''" and model = None and system_prompt = None
        and messages = None and w = world0 and e = "OpenAIError ''reset''"
        and cs = "[text_chunk ''ab'', text_chunk ''c'']"]
  by (simp add: mock_client_def mock_provider_def failing_provider_def world0_def
      or_default_def chat_messages_def DEFAULT_MODEL_def DEFAULT_SYSTEM_PROMPT_def
      send_def py_print_def chunk_fragment_def text_chunk_def truthy_def)

lemma consume_cong_next:
  "response_next r w = response_next r' w' \<Longrightarrow> consume r t w = consume r' t w'"
  by (subst consume.simps, subst (2) consume.simps) simp

lemma consume_RAtError: "consume RAtError t w = (None, t, w)"
  by (subst consume.simps) simp

lemma consume_AtYield:
  "consume (RForwarding (AtYield cs err)) t w =
     (None,
      t @ concat (List.map_filter chunk_fragment cs) @
        (case err of None \<Rightarrow> [] | Some e \<Rightarrow> ''[Error: '' @ error_str e @ '']''),
      (case err of None \<Rightarrow> w | Some e \<Rightarrow> snd (snd (chat_except e w)))
        \<lparr>markdown := markdown w @
           texts_after t (List.map_filter chunk_fragment cs @
             (case err of None \<Rightarrow> [] | Some e \<Rightarrow> [''[Error: '' @ error_str e @ '']'']))\<rparr>)"
proof (induction cs arbitrary: t w)
  case Nil
  show ?case
  proof (cases err)
    case None
    then show ?thesis by (subst consume.simps) (simp add: forward_def)
  next
    case (Some e)
    then show ?thesis
      by (subst consume.simps)
         (simp add: forward_def chat_except_def consume_RAtError py_print_def Let_def)
  qed
next
  case (Cons c cs)
  show ?case
  proof (cases "chunk_fragment c")
    case None
    have "response_next (RForwarding (AtYield (c # cs) err)) w =
          response_next (RForwarding (AtYield cs err)) w"
      by (simp add: forward_def None)
    from consume_cong_next [OF this] show ?thesis
      by (simp add: Cons None)
  next
    case (Some s)
    then show ?thesis
      by (subst consume.simps)
         (simp add: forward_def Cons chat_except_def py_print_def Let_def split: option.splits)
  qed
qed

lemma consume_Created:
  "consume (stream_perplexity_response cl msgs model True) t w =
     consume
       (RForwarding
         (AtYield
           (fst (stream_answer (create_stream (client cl)
              \<lparr>req_model = or_default (Some model) (default_model cl), req_messages = msgs,
               req_stream = True\<rparr>)))
           (snd (stream_answer (create_stream (client cl)
              \<lparr>req_model = or_default (Some model) (default_model cl), req_messages = msgs,
               req_stream = True\<rparr>)))))
       t
       (send \<lparr>req_model = or_default (Some model) (default_model cl), req_messages = msgs,
              req_stream = True\<rparr> w)"
  by (rule consume_cong_next)
     (simp add: stream_perplexity_response_def chat_def chat_body_def chat_messages_def Let_def
        stream_answer_def forward_def split: sum.splits prod.splits)

lemma prepend_context_refines:
  "list_all (\<lambda>a. a < length h) refs \<Longrightarrow>
     (\<exists>ext. snd (prepend_context pdf h refs) = h @ ext) \<and>
     map ((!) (snd (prepend_context pdf h refs))) (fst (prepend_context pdf h refs)) =
       spec_first_user_rewritten pdf (map ((!) h) refs) \<and>
     map ((!) (snd (prepend_context pdf h refs))) refs = map ((!) h) refs"
proof (induction refs)
  case Nil
  show ?case by simp
next
  case (Cons a rest)
  then have a: "a < length h" and rest: "list_all (\<lambda>a. a < length h) rest" by simp_all
  from rest have same: "map ((!) (h @ ext)) rest = map ((!) h) rest" for ext
    by (induction rest) (simp_all add: nth_append)
  show ?case
  proof (cases "role (h ! a) = ''user''")
    case True
    then show ?thesis using a same by (simp add: new_dict_def nth_append)
  next
    case False
    from Cons.IH [OF rest] obtain ext where
      ext: "snd (prepend_context pdf h rest) = h @ ext" by blast
    with a have "snd (prepend_context pdf h rest) ! a = h ! a" by (simp add: nth_append)
    with False Cons.IH [OF rest] show ?thesis by (auto split: prod.splits)
  qed
qed

lemma spec_first_user_rewritten_length [simp]:
  "length (spec_first_user_rewritten pdf ms) = length ms"
  by (induction ms) simp_all

lemma spec_first_user_rewritten_nth:
  "i < length ms \<Longrightarrow>
     spec_first_user_rewritten pdf ms ! i =
       (if role (ms ! i) = ''user'' \<and> (\<forall>j<i. role (ms ! j) \<noteq> ''user'')
        then context_message pdf (ms ! i) else ms ! i)"
proof (induction ms arbitrary: i)
  case Nil
  then show ?case by simp
next
  case (Cons m ms)
  show ?case
  proof (cases i)
    case 0
    then show ?thesis by simp
  next
    case (Suc k)
    with Cons.prems have k: "k < length ms" by simp
    show ?thesis
    proof (cases "role m = ''user''")
      case True
      with Suc show ?thesis by auto
    next
      case False
      have "(\<forall>j<Suc k. role ((m # ms) ! j) \<noteq> ''user'') = (\<forall>j<k. role (ms ! j) \<noteq> ''user'')"
        using False by (auto simp: less_Suc_eq_0_disj)
      with False Suc Cons.IH [OF k] show ?thesis by auto
    qed
  qed
qed

lemma append_message_wf:
  "list_all (\<lambda>a. a < length (objects st)) (st_messages st) \<Longrightarrow>
     list_all (\<lambda>a. a < length (objects (append_message m st))) (st_messages (append_message m st))"
  by (auto simp: append_message_def new_dict_def list_all_iff)

lemma append_message_history:
  "list_all (\<lambda>a. a < length (objects st)) (st_messages st) \<Longrightarrow>
     map ((!) (objects (append_message m st))) (st_messages (append_message m st)) =
       map ((!) (objects st)) (st_messages st) @ [m]"
  by (auto simp: append_message_def new_dict_def list_all_iff nth_append)

lemma compose_messages_refines:
  assumes "list_all (\<lambda>a. a < length (objects st)) (st_messages st)"
  shows "map ((!) (snd (compose_messages st))) (fst (compose_messages st)) =
           \<lparr>role = ''system'', content = Some (st_system_prompt st)\<rparr> #
           (if st_pdf_content st = [] then map ((!) (objects st)) (st_messages st)
            else spec_first_user_rewritten (st_pdf_content st)
                   (map ((!) (objects st)) (st_messages st)))"
    and "\<exists>ext. snd (compose_messages st) = objects st @ ext"
    and "map ((!) (snd (compose_messages st))) (st_messages st) =
           map ((!) (objects st)) (st_messages st)"
proof -
  let ?sys = "\<lparr>role = ''system'', content = Some (st_system_prompt st)\<rparr>"
  let ?h1 = "objects st @ [?sys]"
  let ?refs = "st_messages st"
  let ?pc = "prepend_context (st_pdf_content st) ?h1 ?refs"
  from assms have wf1: "list_all (\<lambda>a. a < length ?h1) ?refs"
    by (auto simp: list_all_iff)
  from assms have same: "map ((!) ?h1) ?refs = map ((!) (objects st)) ?refs"
    by (auto simp: list_all_iff nth_append)
  note pc = prepend_context_refines [OF wf1, of "st_pdf_content st"]
  from pc obtain ext where ext: "snd ?pc = ?h1 @ ext"
    by blast
  have sys: "snd ?pc ! length (objects st) = ?sys"
    unfolding ext by (simp add: nth_append)
  have pc1: "map ((!) (snd ?pc)) (fst ?pc) =
      spec_first_user_rewritten (st_pdf_content st) (map ((!) (objects st)) ?refs)"
    using pc same by simp
  have pc3: "map ((!) (snd ?pc)) ?refs = map ((!) (objects st)) ?refs"
    using pc same by simp
  show "map ((!) (snd (compose_messages st))) (fst (compose_messages st)) =
           ?sys #
           (if st_pdf_content st = [] then map ((!) (objects st)) (st_messages st)
            else spec_first_user_rewritten (st_pdf_content st)
                   (map ((!) (objects st)) (st_messages st)))"
  proof (cases "st_pdf_content st \<noteq> [] \<and> ?refs \<noteq> []")
    case True
    then have "compose_messages st = (length (objects st) # fst ?pc, snd ?pc)"
      by (simp add: compose_messages_def new_dict_def Let_def split: prod.splits)
    with True sys pc1 show ?thesis by simp
  next
    case False
    then have "compose_messages st = (length (objects st) # ?refs, ?h1)"
      by (auto simp: compose_messages_def new_dict_def Let_def)
    with False same show ?thesis by auto
  qed
  show "\<exists>ext. snd (compose_messages st) = objects st @ ext"
  proof (cases "st_pdf_content st \<noteq> [] \<and> ?refs \<noteq> []")
    case True
    then have "compose_messages st = (length (objects st) # fst ?pc, snd ?pc)"
      by (simp add: compose_messages_def new_dict_def Let_def split: prod.splits)
    with ext show ?thesis by simp
  next
    case False
    then have "compose_messages st = (length (objects st) # ?refs, ?h1)"
      by (auto simp: compose_messages_def new_dict_def Let_def)
    then show ?thesis by simp
  qed
  show "map ((!) (snd (compose_messages st))) (st_messages st) =
           map ((!) (objects st)) (st_messages st)"
  proof (cases "st_pdf_content st \<noteq> [] \<and> ?refs \<noteq> []")
    case True
    then have "compose_messages st = (length (objects st) # fst ?pc, snd ?pc)"
      by (simp add: compose_messages_def new_dict_def Let_def split: prod.splits)
    with pc3 show ?thesis by simp
  next
    case False
    then have "compose_messages st = (length (objects st) # ?refs, ?h1)"
      by (auto simp: compose_messages_def new_dict_def Let_def)
    with same show ?thesis by simp
  qed
qed

lemma on_prompt_run:
  assumes "truthy prompt"
    and "init OpenAI environ None None None w = (Inr cl, w1)"
    and "st1 = append_message \<lparr>role = ''user'', content = prompt\<rparr> st"
    and "compose_messages st1 = (messages, h)"
    and "req = \<lparr>req_model = or_default (Some (st_model st)) (default_model cl),
                req_messages = map ((!) h) messages, req_stream = True\<rparr>"
    and "stream_answer (create_stream (client cl) req) = (cs, err)"
  shows "on_prompt OpenAI environ prompt st w =
     (None,
      append_message
        \<lparr>role = ''assistant'',
         content = Some (concat (List.map_filter chunk_fragment cs) @
           (case err of None \<Rightarrow> [] | Some e \<Rightarrow> ''[Error: '' @ error_str e @ '']''))\<rparr>
        (st1\<lparr>objects := h\<rparr>),
      (case err of None \<Rightarrow> send req w1 | Some e \<Rightarrow> snd (snd (chat_except e (send req w1))))
        \<lparr>markdown := markdown w1 @
           texts_after [] (List.map_filter chunk_fragment cs @
             (case err of None \<Rightarrow> [] | Some e \<Rightarrow> [''[Error: '' @ error_str e @ '']'']))\<rparr>)"
proof -
  have model: "st_model st1 = st_model st"
    using assms(3) by (simp add: append_message_def new_dict_def)
  have "consume (stream_perplexity_response cl (map ((!) h) messages) (st_model st1) True) [] w1 =
     (None,
      concat (List.map_filter chunk_fragment cs) @
        (case err of None \<Rightarrow> [] | Some e \<Rightarrow> ''[Error: '' @ error_str e @ '']''),
      (case err of None \<Rightarrow> send req w1 | Some e \<Rightarrow> snd (snd (chat_except e (send req w1))))
        \<lparr>markdown := markdown w1 @
           texts_after [] (List.map_filter chunk_fragment cs @
             (case err of None \<Rightarrow> [] | Some e \<Rightarrow> [''[Error: '' @ error_str e @ '']'']))\<rparr>)"
    using assms(6) unfolding consume_Created model assms(5)
    by (cases err) (simp_all add: consume_AtYield send_def)
  with assms(1,2,3,4) show ?thesis
    by (simp add: on_prompt_def Let_def)
qed

text \<open>
  Claim C4. In a turn where the streaming call raises \<open>e\<close>, at once or after the
  chunks \<open>cs\<close>, the run of the page ends without an exception; the page has shown the
  text after each fragment and then once more with \<open>[Error: e]\<close> added; and the
  stored conversation gains the user's message and an assistant message whose content is
  the fragments followed by that single \<open>[Error: e]\<close>.
\<close>

theorem on_prompt_stream_error:
  assumes "truthy prompt"
    and "init OpenAI environ None None None w = (Inr cl, w1)"
    and "compose_messages (append_message \<lparr>role = ''user'', content = prompt\<rparr> st) = (messages, h)"
    and "create_stream (client cl)
           \<lparr>req_model = or_default (Some (st_model st)) (default_model cl),
            req_messages = map ((!) h) messages, req_stream = True\<rparr> = Inl e \<and> cs = [] \<or>
         create_stream (client cl)
           \<lparr>req_model = or_default (Some (st_model st)) (default_model cl),
            req_messages = map ((!) h) messages, req_stream = True\<rparr> = Inr (cs, Some e)"
    and "st' = fst (snd (on_prompt OpenAI environ prompt st w))"
  shows "fst (on_prompt OpenAI environ prompt st w) = None \<and>
     st_messages st' = st_messages st @ [length (objects st), length h] \<and>
     objects st' =
       h @ [\<lparr>role = ''assistant'',
             content = Some (concat (List.map_filter chunk_fragment cs) @
               ''[Error: '' @ error_str e @ '']'')\<rparr>] \<and>
     markdown (snd (snd (on_prompt OpenAI environ prompt st w))) =
       markdown w1 @
         texts_after [] (List.map_filter chunk_fragment cs @ [''[Error: '' @ error_str e @ '']''])"
proof -
  from assms(4) have ans: "stream_answer (create_stream (client cl)
           \<lparr>req_model = or_default (Some (st_model st)) (default_model cl),
            req_messages = map ((!) h) messages, req_stream = True\<rparr>) = (cs, Some e)"
    by (auto simp: stream_answer_def)
  note run = on_prompt_run [OF assms(1) assms(2) refl assms(3) refl ans]
  show ?thesis
    unfolding assms(5) run
    by (simp add: append_message_def new_dict_def chat_except_def py_print_def send_def)
qed

theorem on_prompt_stream_error_witness:
  "fst (on_prompt
     (mock_OpenAI (mock_provider ''x'' [text_chunk ''ab'', text_chunk ''c'']
        (Some (OpenAIError ''reset''))))
     [''PERPLEXITY_API_KEY'' \<mapsto> ''k''] (Some ''hi'') initial_session world0) = None \<and>
   st_messages (fst (snd (on_prompt
     (mock_OpenAI (mock_provider ''x'' [text_chunk ''ab'', text_chunk ''c'']
        (Some (OpenAIError ''reset''))))
     [''PERPLEXITY_API_KEY'' \<mapsto> ''k''] (Some ''hi'') initial_session world0))) = [0, 2] \<and>
   objects (fst (snd (on_prompt
     (mock_OpenAI (mock_provider ''x'' [text_chunk ''ab'', text_chunk ''c'']
        (Some (OpenAIError ''reset''))))
     [''PERPLEXITY_API_KEY'' \<mapsto> ''k''] (Some ''hi'') initial_session world0))) =
     [\<lparr>role = ''user'', content = Some ''hi''\<rparr>,
      \<lparr>role = ''system'', content = Some ''Be precise and concise.''\<rparr>,
      \<lparr>role = ''assistant'', content = Some ''abc[Error: reset]''\<rparr>] \<and>
   markdown (snd (snd (on_prompt
     (mock_OpenAI (mock_provider ''x'' [text_chunk ''ab'', text_chunk ''c'']
        (Some (OpenAIError ''reset''))))
     [''PERPLEXITY_API_KEY'' \<mapsto> ''k''] (Some ''hi'') initial_session world0))) =
     [''ab'', ''abc'', ''abc[Error: reset]'']"
proof -
  let ?P = "mock_provider ''x'' [text_chunk ''ab'', text_chunk ''c''] (Some (OpenAIError ''reset''))"
  let ?cl = "\<lparr>api_key = ''k'', base_url = ''https://api.perplexity.ai'',
              default_model = ''sonar'', client = ?P\<rparr>"
  let ?h = "[\<lparr>role = ''user'', content = Some ''hi''\<rparr>,
            \<lparr>role = ''system'', content = Some ''Be precise and concise.''\<rparr>]"
  have h1: "truthy (Some ''hi'')" by (simp add: truthy_def)
  have h2: "init (mock_OpenAI ?P) [''PERPLEXITY_API_KEY'' \<mapsto> ''k''] None None None world0 =
      (Inr ?cl, world0)"
    by (simp add: init_def py_or_def truthy_def or_default_def mock_OpenAI_def
        DEFAULT_BASE_URL_def DEFAULT_MODEL_def)
  have h3: "compose_messages (append_message \<lparr>role = ''user'', content = Some ''hi''\<rparr>
      initial_session) = ([1, 0], ?h)"
    by (simp add: compose_messages_def append_message_def new_dict_def initial_session_def)
  have h4: "create_stream (client ?cl)
           \<lparr>req_model = or_default (Some (st_model initial_session)) (default_model ?cl),
            req_messages = map ((!) ?h) [1, 0], req_stream = True\<rparr> =
             Inl (OpenAIError ''reset'') \<and> [text_chunk ''ab'', text_chunk ''c''] = [] \<or>
         create_stream (client ?cl)
           \<lparr>req_model = or_default (Some (st_model initial_session)) (default_model ?cl),
            req_messages = map ((!) ?h) [1, 0], req_stream = True\<rparr> =
             Inr ([text_chunk ''ab'', text_chunk ''c''], Some (OpenAIError ''reset''))"
    by (simp add: mock_provider_def)
  from on_prompt_stream_error [OF h1 h2 h3 h4 refl] show ?thesis
    by (simp add: initial_session_def world0_def chunk_fragment_def text_chunk_def truthy_def)
qed

lemma list_of_length_3:
  "length xs = Suc (Suc (Suc 0)) \<Longrightarrow> xs = [xs ! 0, xs ! Suc 0, xs ! Suc (Suc 0)]"
  by (cases xs; cases "tl xs"; cases "tl (tl xs)") auto

text \<open>
  Claim C5. Let \<open>hist\<close> be the stored conversation once the user's message is added.
  The one request of the turn carries the system message followed by \<open>hist\<close>, where,
  when the document text is not empty, exactly the first message with role \<open>user\<close> is
  replaced by a user message with content
  \<open>"Context from PDF:\n" + document + "\n\n" + original content\<close>, and every other
  message, later user messages included, is as stored; with an empty document text
  nothing is replaced. After the turn the stored conversation reads \<open>hist\<close> followed
  by the assistant's message: the dict objects of the stored messages are untouched.
\<close>

theorem on_prompt_context_injection:
  assumes "list_all (\<lambda>a. a < length (objects st)) (st_messages st)"
    and "truthy prompt"
    and "init OpenAI environ None None None w = (Inr cl, w1)"
    and "hist = map ((!) (objects st)) (st_messages st) @ [\<lparr>role = ''user'', content = prompt\<rparr>]"
    and "st' = fst (snd (on_prompt OpenAI environ prompt st w))"
  shows "\<exists>out text.
     requests (snd (snd (on_prompt OpenAI environ prompt st w))) =
       requests w1 @
         [\<lparr>req_model = or_default (Some (st_model st)) (default_model cl),
           req_messages = \<lparr>role = ''system'', content = Some (st_system_prompt st)\<rparr> # out,
           req_stream = True\<rparr>] \<and>
     length out = length hist \<and>
     (\<forall>i<length hist.
        out ! i =
          (if st_pdf_content st \<noteq> [] \<and> role (hist ! i) = ''user'' \<and>
              (\<forall>j<i. role (hist ! j) \<noteq> ''user'')
           then \<lparr>role = ''user'',
                 content = Some (''Context from PDF:\<newline>'' @ st_pdf_content st @
                   ''\<newline>\<newline>'' @ py_format (content (hist ! i)))\<rparr>
           else hist ! i)) \<and>
     map ((!) (objects st')) (st_messages st') =
       hist @ [\<lparr>role = ''assistant'', content = Some text\<rparr>]"
proof -
  let ?st1 = "append_message \<lparr>role = ''user'', content = prompt\<rparr> st"
  obtain messages h where cm: "compose_messages ?st1 = (messages, h)"
    by (cases "compose_messages ?st1")
  let ?req = "\<lparr>req_model = or_default (Some (st_model st)) (default_model cl),
            req_messages = map ((!) h) messages, req_stream = True\<rparr>"
  obtain cs err where ans: "stream_answer (create_stream (client cl) ?req) = (cs, err)"
    by (cases "stream_answer (create_stream (client cl) ?req)")
  note run = on_prompt_run [OF assms(2) assms(3) refl cm refl ans]
  have wf1: "list_all (\<lambda>a. a < length (objects ?st1)) (st_messages ?st1)"
    by (rule append_message_wf [OF assms(1)])
  have hist1: "map ((!) (objects ?st1)) (st_messages ?st1) = hist"
    unfolding assms(4) by (rule append_message_history [OF assms(1)])
  have fields: "st_pdf_content ?st1 = st_pdf_content st"
    "st_system_prompt ?st1 = st_system_prompt st"
    by (simp_all add: append_message_def new_dict_def)
  note cmr = compose_messages_refines [OF wf1, unfolded cm fst_conv snd_conv hist1 fields]
  let ?out = "if st_pdf_content st = [] then hist
      else spec_first_user_rewritten (st_pdf_content st) hist"
  let ?text = "concat (List.map_filter chunk_fragment cs) @
      (case err of None \<Rightarrow> [] | Some e \<Rightarrow> ''[Error: '' @ error_str e @ '']'')"
  have req: "requests (snd (snd (on_prompt OpenAI environ prompt st w))) =
       requests w1 @
         [\<lparr>req_model = or_default (Some (st_model st)) (default_model cl),
           req_messages = \<lparr>role = ''system'', content = Some (st_system_prompt st)\<rparr> # ?out,
           req_stream = True\<rparr>]"
    unfolding run using cmr(1)
    by (cases err) (simp_all add: send_def chat_except_def py_print_def)
  have len: "length ?out = length hist" by simp
  have nth: "\<forall>i<length hist.
        ?out ! i =
          (if st_pdf_content st \<noteq> [] \<and> role (hist ! i) = ''user'' \<and>
              (\<forall>j<i. role (hist ! j) \<noteq> ''user'')
           then \<lparr>role = ''user'',
                 content = Some (''Context from PDF:\<newline>'' @ st_pdf_content st @
                   ''\<newline>\<newline>'' @ py_format (content (hist ! i)))\<rparr>
           else hist ! i)"
    by (auto simp: spec_first_user_rewritten_nth context_message_def)
  from cmr(2) obtain ext where ext: "h = objects ?st1 @ ext" by blast
  have stored: "map ((!) (objects st')) (st_messages st') =
       hist @ [\<lparr>role = ''assistant'', content = Some ?text\<rparr>]"
  proof -
    have m: "st_messages st' = st_messages ?st1 @ [length h]"
      and o: "objects st' = h @ [\<lparr>role = ''assistant'', content = Some ?text\<rparr>]"
      unfolding assms(5) run by (simp_all add: append_message_def new_dict_def)
    from wf1 ext have "list_all (\<lambda>a. a < length h) (st_messages ?st1)"
      by (auto simp: list_all_iff)
    then have "map ((!) (h @ [\<lparr>role = ''assistant'', content = Some ?text\<rparr>])) (st_messages ?st1) =
        map ((!) h) (st_messages ?st1)"
      by (auto simp: list_all_iff nth_append)
    with cmr(3) show ?thesis unfolding m o by simp
  qed
  from req len nth stored show ?thesis by blast
qed

theorem on_prompt_context_injection_witness:
  "\<exists>text.
     requests (snd (snd (on_prompt (mock_OpenAI (mock_provider ''x'' [text_chunk ''a2''] None))
       [''PERPLEXITY_API_KEY'' \<mapsto> ''k''] (Some ''q2'') session_after_one_turn world0))) =
       [\<lparr>req_model = ''sonar-pro'',
         req_messages =
           [\<lparr>role = ''system'', content = Some ''Be precise and concise.''\<rparr>,
            \<lparr>role = ''user'', content = Some ''Context from PDF:\<newline>DOC\<newline>\<newline>q1''\<rparr>,
            \<lparr>role = ''assistant'', content = Some ''a1''\<rparr>,
            \<lparr>role = ''user'', content = Some ''q2''\<rparr>],
         req_stream = True\<rparr>] \<and>
     map ((!) (objects (fst (snd (on_prompt
           (mock_OpenAI (mock_provider ''x'' [text_chunk ''a2''] None))
           [''PERPLEXITY_API_KEY'' \<mapsto> ''k''] (Some ''q2'') session_after_one_turn world0)))))
       (st_messages (fst (snd (on_prompt
           (mock_OpenAI (mock_provider ''x'' [text_chunk ''a2''] None))
           [''PERPLEXITY_API_KEY'' \<mapsto> ''k''] (Some ''q2'') session_after_one_turn world0)))) =
       [\<lparr>role = ''user'', content = Some ''q1''\<rparr>,
        \<lparr>role = ''assistant'', content = Some ''a1''\<rparr>,
        \<lparr>role = ''user'', content = Some ''q2''\<rparr>,
        \<lparr>role = ''assistant'', content = Some text\<rparr>]"
proof -
  let ?P = "mock_provider ''x'' [text_chunk ''a2''] None"
  let ?cl = "\<lparr>api_key = ''k'', base_url = ''https://api.perplexity.ai'',
              default_model = ''sonar'', client = ?P\<rparr>"
  let ?hist = "[\<lparr>role = ''user'', content = Some ''q1''\<rparr>,
        \<lparr>role = ''assistant'', content = Some ''a1''\<rparr>,
        \<lparr>role = ''user'', content = Some ''q2''\<rparr>]"
  have h1: "list_all (\<lambda>a. a < length (objects session_after_one_turn))
      (st_messages session_after_one_turn)"
    by (simp add: session_after_one_turn_def)
  have h2: "truthy (Some ''q2'')" by (simp add: truthy_def)
  have h3: "init (mock_OpenAI ?P) [''PERPLEXITY_API_KEY'' \<mapsto> ''k''] None None None world0 =
      (Inr ?cl, world0)"
    by (simp add: init_def py_or_def truthy_def or_default_def mock_OpenAI_def
        DEFAULT_BASE_URL_def DEFAULT_MODEL_def)
  have h4: "?hist = map ((!) (objects session_after_one_turn))
      (st_messages session_after_one_turn) @ [\<lparr>role = ''user'', content = Some ''q2''\<rparr>]"
    by (simp add: session_after_one_turn_def)
  from on_prompt_context_injection [OF h1 h2 h3 h4 refl]
  obtain out reply where
    r: "requests (snd (snd (on_prompt (mock_OpenAI ?P) [''PERPLEXITY_API_KEY'' \<mapsto> ''k'']
          (Some ''q2'') session_after_one_turn world0))) =
        requests world0 @
         [\<lparr>req_model = or_default (Some (st_model session_after_one_turn)) (default_model ?cl),
           req_messages =
             \<lparr>role = ''system'', content = Some (st_system_prompt session_after_one_turn)\<rparr> # out,
           req_stream = True\<rparr>]"
    and l: "length out = length ?hist"
    and n: "\<forall>i<length ?hist.
        out ! i =
          (if st_pdf_content session_after_one_turn \<noteq> [] \<and> role (?hist ! i) = ''user'' \<and>
              (\<forall>j<i. role (?hist ! j) \<noteq> ''user'')
           then \<lparr>role = ''user'',
                 content = Some (''Context from PDF:\<newline>'' @
                   st_pdf_content session_after_one_turn @
                   ''\<newline>\<newline>'' @ py_format (content (?hist ! i)))\<rparr>
           else ?hist ! i)"
    and s: "map ((!) (objects (fst (snd (on_prompt (mock_OpenAI ?P)
          [''PERPLEXITY_API_KEY'' \<mapsto> ''k''] (Some ''q2'') session_after_one_turn world0)))))
       (st_messages (fst (snd (on_prompt (mock_OpenAI ?P)
          [''PERPLEXITY_API_KEY'' \<mapsto> ''k''] (Some ''q2'') session_after_one_turn world0)))) =
       ?hist @ [\<lparr>role = ''assistant'', content = Some reply\<rparr>]"
    by blast
  from l have out: "out = [out ! 0, out ! Suc 0, out ! Suc (Suc 0)]"
    by (intro list_of_length_3) simp
  from n [rule_format, of 0] have "out ! 0 = \<lparr>role = ''user'',
      content = Some ''Context from PDF:\<newline>DOC\<newline>\<newline>q1''\<rparr>"
    by (simp add: session_after_one_turn_def py_format_def)
  moreover from n [rule_format, of "Suc 0"]
  have "out ! Suc 0 = \<lparr>role = ''assistant'', content = Some ''a1''\<rparr>"
    by simp
  moreover from n [rule_format, of "Suc (Suc 0)"]
  have "out ! Suc (Suc 0) = \<lparr>role = ''user'', content = Some ''q2''\<rparr>"
    by (simp add: less_Suc_eq)
  ultimately have "out = [\<lparr>role = ''user'',
      content = Some ''Context from PDF:\<newline>DOC\<newline>\<newline>q1''\<rparr>,
      \<lparr>role = ''assistant'', content = Some ''a1''\<rparr>,
      \<lparr>role = ''user'', content = Some ''q2''\<rparr>]"
    using out by simp
  with r s show ?thesis
    by (simp add: session_after_one_turn_def world0_def or_default_def)
qed

end
